theory Spec2Isabelle
  imports Complex_Main
begin

section \<open>The training driver \<open>train.py\<close>\<close>

text \<open>
  The driver is sequential control flow around calls into a deep-learning library and
  into collaborator modules (\<open>build_model\<close>, \<open>build_dataset_train\<close>, \<open>predict_sliding\<close>,
  the early-stopping monitor, ...). The control flow, the arithmetic and the exceptions
  that the statements of \<open>train.py\<close> themselves raise are modelled here; the library and
  the collaborators are parameters, collected in the record \<open>env\<close>. Python floats are
  read as real numbers, so rounding is not part of the model.
\<close>

subsection \<open>Exceptions\<close>

datatype error =
    NotImplementedError string
  | Exception string
  | ZeroDivisionError
  | IndexError
  | ValueError
  | UnboundLocalError string
  | AttributeError string

subsection \<open>Command-line arguments\<close>

text \<open>
  \<open>--input_size\<close> is declared with \<open>type=str\<close> and the default \<open>(256, 256)\<close>: its value is
  the default pair or the string given on the command line. \<open>--optim\<close> has
  \<open>choices=['sgd', 'adam']\<close>. The attributes \<open>classes\<close>, \<open>gpu_nums\<close> and \<open>save_seg_dir\<close>
  are not created by the parser; they exist once the program has assigned them.
\<close>

datatype size_arg = SizeStr string | SizePair int int

datatype optim_choice = SGD | Adam

record args =
  model :: string
  dataset :: string
  input_size :: size_arg
  num_workers :: int
  train_type :: string
  max_epochs :: int
  batch_size :: int
  val_epochs :: int
  random_mirror :: bool
  random_scale :: bool
  lr :: real
  optim :: optim_choice
  sliding :: bool
  loss :: string
  cuda :: bool
  gpus :: string
  resume :: string
  savedir :: string
  logFile :: string
  classes :: "int option"
  gpu_nums :: "int option"
  save_seg_dir :: "string option"

definition parse_args_defaults :: args where
  "parse_args_defaults =
     \<lparr>model = ''DualSeg_res50'', dataset = ''paris'', input_size = SizePair 256 256,
      num_workers = 4, train_type = ''train'', max_epochs = 300, batch_size = 4,
      val_epochs = 10, random_mirror = True, random_scale = True, lr = 1 / 1000,
      optim = Adam, sliding = True, loss = ''CrossEntropyLoss2d'', cuda = True,
      gpus = ''0'', resume = '''', savedir = ''./checkpoint/'', logFile = ''log.txt'',
      classes = None, gpu_nums = None, save_seg_dir = None\<rparr>"

subsection \<open>Python's \<open>str\<close> on integers\<close>

definition digit_char :: "nat \<Rightarrow> char" where
  "digit_char d = char_of (48 + d)"

fun str_nat :: "nat \<Rightarrow> string" where
  "str_nat n = (if n < 10 then [digit_char n] else str_nat (n div 10) @ [digit_char (n mod 10)])"

declare str_nat.simps [simp del]

definition str_int :: "int \<Rightarrow> string" where
  "str_int i = (if i < 0 then CHR ''-'' # str_nat (nat (- i)) else str_nat (nat i))"

subsection \<open>The log file\<close>

text \<open>
  A line of the log is the list of its whitespace-separated fields
  (\<open>line.strip().split()\<close>). \<open>float\<close> of a field is its number; the per-class field is
  not one number.
\<close>

datatype log_field =
    FEpoch int
  | FLr real
  | FTrainLoss real
  | FValLoss real
  | FFWIoU real
  | FmIOU real
  | FPerClassIoU "real list"

type_synonym log_line = "log_field list"

fun py_float :: "log_field \<Rightarrow> error + real" where
  "py_float (FEpoch e) = Inr (of_int e)"
| "py_float (FLr x) = Inr x"
| "py_float (FTrainLoss x) = Inr x"
| "py_float (FValLoss x) = Inr x"
| "py_float (FFWIoU x) = Inr x"
| "py_float (FmIOU x) = Inr x"
| "py_float (FPerClassIoU xs) = Inl ValueError"

definition py_index :: "'a list \<Rightarrow> nat \<Rightarrow> error + 'a" where
  "py_index xs i = (if i < length xs then Inr (xs ! i) else Inl IndexError)"

definition float_field :: "log_line \<Rightarrow> nat \<Rightarrow> error + real" where
  "float_field line i = (case py_index line i of Inl err \<Rightarrow> Inl err | Inr f \<Rightarrow> py_float f)"

text \<open>
  Modelled from the spec: \<open>record_train_log\<close> and \<open>record_trainVal_log\<close> of
  \<open>utils/record_log.py\<close> are not among the sources. The spec describes the log as "a
  plain-text training log with one line per epoch (epoch, lr, train loss, val loss,
  FWIoU, mIOU, per-class IoU)"; each call appends one line holding, in that order,
  those of the listed values that it is passed.
\<close>

definition record_train_log :: "log_line list \<Rightarrow> int \<Rightarrow> real \<Rightarrow> real \<Rightarrow> log_line list" where
  "record_train_log lg e lr0 lossTr = lg @ [[FEpoch e, FLr lr0, FTrainLoss lossTr]]"

definition record_trainVal_log ::
  "log_line list \<Rightarrow> int \<Rightarrow> real \<Rightarrow> real \<Rightarrow> real \<Rightarrow> real \<Rightarrow> real \<Rightarrow> real list \<Rightarrow> log_line list" where
  "record_trainVal_log lg e lr0 lossTr vl fw mi pc =
     lg @ [[FEpoch e, FLr lr0, FTrainLoss lossTr, FValLoss vl, FFWIoU fw, FmIOU mi,
            FPerClassIoU pc]]"

subsection \<open>The library and the collaborators\<close>

record val_result =
  val_loss :: real
  FWIoU :: real
  mIOU :: real
  per_class_iu :: "real list"
  pa :: real
  cpa :: "real list"
  mpa :: real

text \<open>
  \<open>'w\<close> is what \<open>model.state_dict()\<close> returns (the weights), \<open>'o\<close> the state of the
  optimizer and its learning-rate scheduler, \<open>'e\<close> the state of the early-stopping
  object, \<open>'b\<close> a batch of the training loader.
\<close>

record ('w, 'o, 'e, 'b) env =
  build_model :: "string \<Rightarrow> int \<Rightarrow> 'w"
  build_dataset_train :: "string \<Rightarrow> size_arg \<Rightarrow> int \<Rightarrow> string \<Rightarrow> bool \<Rightarrow> bool \<Rightarrow> int \<Rightarrow> 'b list"
  build_optimizer :: "optim_choice \<Rightarrow> real \<Rightarrow> 'o"
  criterion_pspnet :: "'w \<Rightarrow> 'b \<Rightarrow> real \<times> real"
  criterion_output :: "'w \<Rightarrow> 'b \<Rightarrow> real"
  optimizer_step :: "'w \<Rightarrow> 'o \<Rightarrow> 'b \<Rightarrow> 'w \<times> 'o"
  param_group_lr :: "'o \<Rightarrow> real"
  lr_scheduler_step :: "'o \<Rightarrow> 'o"
  predict_sliding :: "'w \<Rightarrow> size_arg \<Rightarrow> val_result"
  predict_whole :: "real \<times> real \<times> real \<times> real list"
  cuda_device_count :: nat
  cuda_is_available :: bool
  early_stopping_init :: "nat \<Rightarrow> 'e"
  monitor :: "real \<Rightarrow> 'e \<Rightarrow> 'e"
  early_stop :: "'e \<Rightarrow> bool"
  resume_logfile :: "log_line list"

subsection \<open>What a run does: events, files, program state\<close>

datatype message =
    MsgUseGpu string
  | MsgDeviceCount nat
  | MsgSingleGpu
  | MsgLoadedCheckpoint string int
  | MsgNoCheckpointFound string
  | MsgBeginningTraining
  | MsgEarlyStopEpoch int
  | MsgEarlyStoppingAndSave

datatype event =
    BuildModel string int
  | BuildDatasetTrain string size_arg int
  | BuildDatasetTest string
  | BuildLoss int
  | BuildOptimizer optim_choice
  | CriteriaToCuda
  | ModelToCuda
  | RecordArgs
  | Print message
  | TrainStep int
  | ValidateSliding int size_arg
  | ValidateWhole int
  | RecordLog int
  | LrStep int
  | DrawLog int
  | SaveCheckpoint int string
  | EarlyStopCheck int bool
  | EarlyStopSave int string
  | EarlyStopValidate int size_arg

text \<open>A checkpoint is the dictionary \<open>{"epoch": epoch, "model": model.state_dict()}\<close>.\<close>

datatype 'w checkpoint = Checkpoint (ck_epoch: int) (ck_model: 'w)

text \<open>
  The state of \<open>main\<close>: its local variables, the checkpoint files on disk (a map from
  paths; \<open>torch.save\<close> writes one, \<open>os.path.isfile\<close> and \<open>os.path.exists\<close> ask for
  membership of its domain), the lines written to the log by this run, and the events
  so far.
\<close>

record ('w, 'o, 'e) state =
  weights :: 'w
  optimizer :: 'o
  early_stopping :: 'e
  start_epoch :: int
  lossTr_list :: "real list"
  mIOU_val_list :: "real list"
  lossVal_list :: "real list"
  mIOU_val :: real
  files :: "string \<rightharpoonup> 'w checkpoint"
  logger :: "log_line list"
  trace :: "event list"

definition emit :: "event list \<Rightarrow> ('w, 'o, 'e) state \<Rightarrow> ('w, 'o, 'e) state" where
  "emit evs st = st\<lparr>trace := trace st @ evs\<rparr>"

subsection \<open>\<open>train\<close>: one epoch over the training loader\<close>

text \<open>
  The loss of one batch: \<open>0.6 * main_loss + 0.4 * aux_loss\<close> for the model named
  \<open>PSPNet50\<close>, the criterion of the output otherwise.
\<close>

definition batch_loss :: "('w, 'o, 'e, 'b) env \<Rightarrow> args \<Rightarrow> 'w \<Rightarrow> 'b \<Rightarrow> real" where
  "batch_loss env a w b =
     (if model a = ''PSPNet50''
      then (case criterion_pspnet env w b of (main_loss, aux_loss) \<Rightarrow>
              (6 / 10) * main_loss + (4 / 10) * aux_loss)
      else criterion_output env w b)"

text \<open>The \<open>for\<close> loop of \<open>train\<close>; \<open>epoch_loss\<close> is the list it appends to.\<close>

fun train_batches ::
  "('w, 'o, 'e, 'b) env \<Rightarrow> args \<Rightarrow> 'b list \<Rightarrow> 'w \<times> 'o \<Rightarrow> real list \<Rightarrow> ('w \<times> 'o) \<times> real list" where
  "train_batches env a [] wo epoch_loss = (wo, epoch_loss)"
| "train_batches env a (b # bs) wo epoch_loss =
     train_batches env a bs (optimizer_step env (fst wo) (snd wo) b)
       (epoch_loss @ [batch_loss env a (fst wo) b])"

text \<open>Python's \<open>sum(xs) / len(xs)\<close>.\<close>

definition average :: "real list \<Rightarrow> error + real" where
  "average xs = (if length xs = 0 then Inl ZeroDivisionError
                 else Inr (sum_list xs / real (length xs)))"

text \<open>
  \<open>train\<close> returns the weights and the optimizer as the loop left them, and either the
  exception of the final division or the pair \<open>(average_epoch_loss_train, lr)\<close>.
\<close>

definition train ::
  "('w, 'o, 'e, 'b) env \<Rightarrow> args \<Rightarrow> 'b list \<Rightarrow> 'w \<times> 'o \<Rightarrow> ('w \<times> 'o) \<times> (error + real \<times> real)" where
  "train env a train_loader wo =
     (let lr0 = param_group_lr env (snd wo);
          r = train_batches env a train_loader wo []
      in (fst r, (case average (snd r) of
                    Inl err \<Rightarrow> Inl err
                  | Inr average_epoch_loss_train \<Rightarrow> Inr (average_epoch_loss_train, lr0))))"

text \<open>
  The loss values of the batches, one after the other, written by plain recursion:
  each batch is seen by the weights that the steps before it have produced.
\<close>

fun per_batch_losses :: "('w, 'o, 'e, 'b) env \<Rightarrow> args \<Rightarrow> 'b list \<Rightarrow> 'w \<times> 'o \<Rightarrow> real list" where
  "per_batch_losses env a [] wo = []"
| "per_batch_losses env a (b # bs) wo =
     batch_loss env a (fst wo) b # per_batch_losses env a bs (optimizer_step env (fst wo) (snd wo) b)"

subsection \<open>The epoch loop of \<open>main\<close>\<close>

datatype outcome = Next | Break | Raise error

text \<open>Line 166 and 167: the call of \<open>train\<close> and \<open>lossTr_list.append(lossTr)\<close>.\<close>

definition train_phase ::
  "('w, 'o, 'e, 'b) env \<Rightarrow> args \<Rightarrow> 'b list \<Rightarrow> ('w, 'o, 'e) state \<Rightarrow> int \<Rightarrow>
     ('w, 'o, 'e) state \<times> (error + real \<times> real)" where
  "train_phase env a train_loader st e =
     (case train env a train_loader (weights st, optimizer st) of
        (wo, r) \<Rightarrow>
          (let st1 = emit [TrainStep e] (st\<lparr>weights := fst wo, optimizer := snd wo\<rparr>)
           in (case r of
                 Inl err \<Rightarrow> (st1, Inl err)
               | Inr (lossTr, lr0) \<Rightarrow>
                   (st1\<lparr>lossTr_list := lossTr_list st1 @ [lossTr]\<rparr>, Inr (lossTr, lr0)))))"

text \<open>
  The test of line 170, \<open>epoch % args.val_epochs == 0 or epoch == 1 or epoch ==
  args.max_epochs\<close>. Python's \<open>%\<close> on integers is \<open>mod\<close> (the result has the sign of
  the divisor) and raises for the divisor 0, which \<open>validation_phase\<close> writes out.
\<close>

definition validation_due :: "args \<Rightarrow> int \<Rightarrow> bool" where
  "validation_due a e = (e mod val_epochs a = 0 \<or> e = 1 \<or> e = max_epochs a)"

text \<open>
  Lines 170 to 184. Without \<open>sliding\<close> the names \<open>pa\<close>, \<open>mpa\<close> and \<open>cpa\<close> are never
  assigned, so evaluating the arguments of \<open>record_trainVal_log\<close> raises.
\<close>

definition validation_phase ::
  "('w, 'o, 'e, 'b) env \<Rightarrow> args \<Rightarrow> ('w, 'o, 'e) state \<Rightarrow> int \<Rightarrow> real \<Rightarrow> real \<Rightarrow>
     ('w, 'o, 'e) state \<times> error option" where
  "validation_phase env a st e lr0 lossTr =
     (if val_epochs a = 0 then (st, Some ZeroDivisionError)
      else if validation_due a e then
        (if sliding a then
           (let r = predict_sliding env (weights st) (input_size a);
                st1 = emit [ValidateSliding e (input_size a)] st;
                st2 = st1\<lparr>mIOU_val := mIOU r,
                          mIOU_val_list := mIOU_val_list st1 @ [mIOU r],
                          lossVal_list := lossVal_list st1 @ [val_loss r]\<rparr>;
                st3 = st2\<lparr>logger := record_trainVal_log (logger st2) e lr0 lossTr
                                      (val_loss r) (FWIoU r) (mIOU r) (per_class_iu r)\<rparr>
            in (emit [RecordLog e] st3, None))
         else
           (case predict_whole env of
              (vl, fw, mi, pc) \<Rightarrow>
                (let st1 = emit [ValidateWhole e] st;
                     st2 = st1\<lparr>mIOU_val := mi,
                               mIOU_val_list := mIOU_val_list st1 @ [mi],
                               lossVal_list := lossVal_list st1 @ [vl]\<rparr>
                 in (st2, Some (UnboundLocalError ''pa'')))))
      else
        (emit [RecordLog e] (st\<lparr>logger := record_train_log (logger st) e lr0 lossTr\<rparr>), None))"

text \<open>Lines 187 and 190: \<open>lr_scheduler.step()\<close> and \<open>draw_log\<close>.\<close>

definition lr_phase :: "('w, 'o, 'e, 'b) env \<Rightarrow> ('w, 'o, 'e) state \<Rightarrow> int \<Rightarrow> ('w, 'o, 'e) state" where
  "lr_phase env st e =
     emit [LrStep e, DrawLog e] (st\<lparr>optimizer := lr_scheduler_step env (optimizer st)\<rparr>)"

text \<open>Lines 193 to 198.\<close>

definition model_file_name :: "args \<Rightarrow> int \<Rightarrow> string" where
  "model_file_name a e = savedir a @ ''/model_'' @ str_int e @ ''.pth''"

definition torch_save ::
  "'w checkpoint \<Rightarrow> string \<Rightarrow> ('w, 'o, 'e) state \<Rightarrow> ('w, 'o, 'e) state" where
  "torch_save ck path st = st\<lparr>files := (files st)(path \<mapsto> ck)\<rparr>"

definition save_due :: "args \<Rightarrow> int \<Rightarrow> bool" where
  "save_due a e = (e > max_epochs a - 10 \<or> e mod 10 = 0)"

definition save_phase :: "args \<Rightarrow> ('w, 'o, 'e) state \<Rightarrow> int \<Rightarrow> ('w, 'o, 'e) state" where
  "save_phase a st e =
     (let ck = Checkpoint e (weights st) in
      if e > max_epochs a - 10
      then emit [SaveCheckpoint e (model_file_name a e)] (torch_save ck (model_file_name a e) st)
      else if e mod 10 = 0
      then emit [SaveCheckpoint e (model_file_name a e)] (torch_save ck (model_file_name a e) st)
      else st)"

text \<open>
  Lines 201 to 211. The checkpoint \<open>state\<close> is the one built at line 194; the weights
  have not changed since.
\<close>

definition early_stop_phase ::
  "('w, 'o, 'e, 'b) env \<Rightarrow> args \<Rightarrow> ('w, 'o, 'e) state \<Rightarrow> int \<Rightarrow> ('w, 'o, 'e) state \<times> outcome" where
  "early_stop_phase env a st e =
     (let es = monitor env (mIOU_val st) (early_stopping st);
          st1 = emit [EarlyStopCheck e (early_stop env es)] (st\<lparr>early_stopping := es\<rparr>)
      in if early_stop env es then
           (if model_file_name a e \<notin> dom (files st1) then
              (let st2 = emit [EarlyStopSave e (model_file_name a e)]
                           (torch_save (Checkpoint e (weights st1)) (model_file_name a e) st1);
                   r = predict_sliding env (weights st2) (input_size a);
                   st3 = emit [EarlyStopValidate e (input_size a), Print (MsgEarlyStopEpoch e)]
                           (st2\<lparr>mIOU_val := mIOU r\<rparr>)
               in (st3, Break))
            else (st1, Break))
         else (st1, Next))"

text \<open>The body of the \<open>for\<close> loop, lines 165 to 211.\<close>

definition epoch_body ::
  "('w, 'o, 'e, 'b) env \<Rightarrow> args \<Rightarrow> 'b list \<Rightarrow> ('w, 'o, 'e) state \<Rightarrow> int \<Rightarrow>
     ('w, 'o, 'e) state \<times> outcome" where
  "epoch_body env a train_loader st e =
     (case train_phase env a train_loader st e of
        (st1, Inl err) \<Rightarrow> (st1, Raise err)
      | (st1, Inr (lossTr, lr0)) \<Rightarrow>
          (case validation_phase env a st1 e lr0 lossTr of
             (st2, Some err) \<Rightarrow> (st2, Raise err)
           | (st2, None) \<Rightarrow> early_stop_phase env a (save_phase a (lr_phase env st2 e) e) e))"

text \<open>
  \<open>for epoch in range(start_epoch, args.max_epochs + 1)\<close>: the loop from epoch \<open>e\<close> on.
  It ends when the range is used up, at a \<open>break\<close>, or with an exception.
\<close>

function epoch_loop ::
  "('w, 'o, 'e, 'b) env \<Rightarrow> args \<Rightarrow> 'b list \<Rightarrow> ('w, 'o, 'e) state \<Rightarrow> int \<Rightarrow>
     ('w, 'o, 'e) state \<times> error option" where
  "epoch_loop env a train_loader st e =
     (if e > max_epochs a then (st, None)
      else (case epoch_body env a train_loader st e of
              (st1, Next) \<Rightarrow> epoch_loop env a train_loader st1 (e + 1)
            | (st1, Break) \<Rightarrow> (st1, None)
            | (st1, Raise err) \<Rightarrow> (st1, Some err)))"
  by pat_completeness auto
termination
  by (relation "measure (\<lambda>(env, a, train_loader, st, e). nat (max_epochs a + 1 - e))") auto

declare epoch_loop.simps [simp del]

subsection \<open>Resuming\<close>

text \<open>
  Lines 148 to 152: the loop over the lines that \<open>recorder.resume_logfile()\<close> returned.
  Indexing a line that is too short raises \<open>IndexError\<close>, \<open>float\<close> of a field that is
  not a number raises \<open>ValueError\<close>, and \<open>%\<close> raises for \<open>val_epochs = 0\<close>.
\<close>

fun resume_lines ::
  "args \<Rightarrow> nat \<Rightarrow> log_line list \<Rightarrow> ('w, 'o, 'e) state \<Rightarrow> ('w, 'o, 'e) state \<times> error option" where
  "resume_lines a index [] st = (st, None)"
| "resume_lines a index (line # rest) st =
     (case float_field line 2 of
        Inl err \<Rightarrow> (st, Some err)
      | Inr x \<Rightarrow>
          (let st1 = st\<lparr>lossTr_list := lossTr_list st @ [x]\<rparr> in
           if val_epochs a = 0 then (st1, Some ZeroDivisionError)
           else if (int index + 1) mod val_epochs a = 0 \<or> index = 0 then
             (case float_field line 3 of
                Inl err \<Rightarrow> (st1, Some err)
              | Inr y \<Rightarrow>
                  (let st2 = st1\<lparr>lossVal_list := lossVal_list st1 @ [y]\<rparr> in
                   case float_field line 5 of
                     Inl err \<Rightarrow> (st2, Some err)
                   | Inr z \<Rightarrow>
                       resume_lines a (Suc index) rest
                         (st2\<lparr>mIOU_val_list := mIOU_val_list st2 @ [z]\<rparr>)))
           else resume_lines a (Suc index) rest st1))"

text \<open>Lines 153 to 159: \<open>torch.load\<close> of the file at \<open>args.resume\<close>, if there is one.\<close>

definition load_checkpoint :: "args \<Rightarrow> ('w, 'o, 'e) state \<Rightarrow> ('w, 'o, 'e) state" where
  "load_checkpoint a st =
     (case files st (resume a) of
        Some ck \<Rightarrow>
          emit [Print (MsgLoadedCheckpoint (resume a) (ck_epoch ck))]
            (st\<lparr>start_epoch := ck_epoch ck + 1, weights := ck_model ck\<rparr>)
      | None \<Rightarrow> emit [Print (MsgNoCheckpointFound (resume a))] st)"

text \<open>Lines 146 to 162. A string is true in Python when it is not empty.\<close>

definition resume_training ::
  "('w, 'o, 'e, 'b) env \<Rightarrow> args \<Rightarrow> ('w, 'o, 'e) state \<Rightarrow> ('w, 'o, 'e) state \<times> error option" where
  "resume_training env a st =
     (if resume a \<noteq> [] then
        (case resume_lines a 0 (resume_logfile env) st of
           (st1, Some err) \<Rightarrow> (st1, Some err)
         | (st1, None) \<Rightarrow> (load_checkpoint a st1, None))
      else (st, None))"

subsection \<open>\<open>main\<close> and the start of the program\<close>

text \<open>What is left of a run: the files, the log lines written, the events.\<close>

record 'w world =
  w_files :: "string \<rightharpoonup> 'w checkpoint"
  w_logger :: "log_line list"
  w_trace :: "event list"

definition world_of :: "('w, 'o, 'e) state \<Rightarrow> 'w world" where
  "world_of st = \<lparr>w_files = files st, w_logger = logger st, w_trace = trace st\<rparr>"

text \<open>
  Lines 108 to 121. The moves to the device are calls into the library; the check of
  \<open>torch.cuda.is_available()\<close> comes after them.
\<close>

definition cuda_setup ::
  "('w, 'o, 'e, 'b) env \<Rightarrow> args \<Rightarrow> args \<times> event list \<times> error option" where
  "cuda_setup env a =
     (if cuda a then
        (let evs = [Print (MsgUseGpu (gpus a)), CriteriaToCuda]
                   @ (if cuda_device_count env > 1
                      then [Print (MsgDeviceCount (cuda_device_count env)), ModelToCuda]
                      else [Print MsgSingleGpu, ModelToCuda]);
             a1 = a\<lparr>gpu_nums := Some (if cuda_device_count env > 1
                                      then int (cuda_device_count env) else 1)\<rparr>
         in if \<not> cuda_is_available env
            then (a1, evs,
                  Some (Exception ''No GPU found or Wrong gpu id, please run without --cuda''))
            else (a1, evs, None))
      else (a, [], None))"

text \<open>
  Lines 124 to 132. \<open>args.gpu_nums\<close> exists only after the branch for \<open>args.cuda\<close>.
  The new \<open>args.savedir\<close> ends with a slash, so \<open>os.path.join\<close> appends to it.
\<close>

definition set_savedir :: "args \<Rightarrow> error + args" where
  "set_savedir a =
     (case gpu_nums a of
        None \<Rightarrow> Inl (AttributeError ''gpu_nums'')
      | Some g \<Rightarrow>
          (let d = savedir a @ dataset a @ ''/'' @ model a @ ''bs'' @ str_int (batch_size a)
                   @ ''gpu'' @ str_int g @ ''_'' @ train_type a @ ''/''
           in Inr (a\<lparr>savedir := d, save_seg_dir := Some (d @ ''predict_sliding'')\<rparr>)))"

definition main ::
  "('w, 'o, 'e, 'b) env \<Rightarrow> args \<Rightarrow> int \<Rightarrow> (string \<rightharpoonup> 'w checkpoint) \<Rightarrow> 'w world \<times> error option" where
  "main env a ignore_label fs =
     (case classes a of
        None \<Rightarrow> (\<lparr>w_files = fs, w_logger = [], w_trace = []\<rparr>, Some (AttributeError ''classes''))
      | Some c \<Rightarrow>
          (let train_loader = build_dataset_train env (dataset a) (input_size a) (batch_size a)
                                (train_type a) (random_scale a) (random_mirror a) (num_workers a);
               evs0 = [BuildModel (model a) c,
                       BuildDatasetTrain (dataset a) (input_size a) (batch_size a),
                       BuildDatasetTest (dataset a), BuildLoss ignore_label,
                       BuildOptimizer (optim a)]
           in case cuda_setup env a of
                (a1, evs1, Some err) \<Rightarrow>
                  (\<lparr>w_files = fs, w_logger = [], w_trace = evs0 @ evs1\<rparr>, Some err)
              | (a1, evs1, None) \<Rightarrow>
                  (case set_savedir a1 of
                     Inl err \<Rightarrow> (\<lparr>w_files = fs, w_logger = [], w_trace = evs0 @ evs1\<rparr>, Some err)
                   | Inr a2 \<Rightarrow>
                       (let st0 = \<lparr>weights = build_model env (model a) c,
                                   optimizer = build_optimizer env (optim a) (lr a),
                                   early_stopping = early_stopping_init env 50,
                                   start_epoch = 1, lossTr_list = [], mIOU_val_list = [],
                                   lossVal_list = [], mIOU_val = 0, files = fs, logger = [],
                                   trace = evs0 @ evs1 @ [RecordArgs]\<rparr>
                        in case resume_training env a2 st0 of
                             (st1, Some err) \<Rightarrow> (world_of st1, Some err)
                           | (st1, None) \<Rightarrow>
                               (case epoch_loop env a2 train_loader
                                       (emit [Print MsgBeginningTraining] st1) (start_epoch st1) of
                                  (st2, Some err) \<Rightarrow> (world_of st2, Some err)
                                | (st2, None) \<Rightarrow>
                                    (world_of (emit [Print MsgEarlyStoppingAndSave] st2), None))))))"

text \<open>The chain of tests on \<open>args.dataset\<close> under \<open>if __name__ == '__main__'\<close>.\<close>

definition configure :: "args \<Rightarrow> error + args \<times> int" where
  "configure a =
     (if dataset a = ''cityscapes''
      then Inr (a\<lparr>classes := Some 19, input_size := SizePair 512 512\<rparr>, 255)
      else if dataset a = ''camvid''
      then Inr (a\<lparr>classes := Some 11, input_size := SizePair 360 480\<rparr>, 11)
      else if dataset a = ''paris''
      then Inr (a\<lparr>classes := Some 3, input_size := SizePair 512 512\<rparr>, 255)
      else if dataset a = ''road''
      then Inr (a\<lparr>classes := Some 2, input_size := SizePair 512 512\<rparr>, 255)
      else if dataset a = ''ai''
      then Inr (a\<lparr>classes := Some 8, input_size := SizePair 256 256\<rparr>, 255)
      else Inl (NotImplementedError
                  (''This repository now supports datasets '' @ dataset a @ '' is not included'')))"

definition startup ::
  "('w, 'o, 'e, 'b) env \<Rightarrow> args \<Rightarrow> (string \<rightharpoonup> 'w checkpoint) \<Rightarrow> 'w world \<times> error option" where
  "startup env a fs =
     (case configure a of
        Inl err \<Rightarrow> (\<lparr>w_files = fs, w_logger = [], w_trace = []\<rparr>, Some err)
      | Inr (a1, ignore_label) \<Rightarrow> main env a1 ignore_label fs)"

subsection \<open>Reading a run\<close>

text \<open>The dataset names that the chain of tests accepts.\<close>

definition supported_datasets :: "string list" where
  "supported_datasets = [''cityscapes'', ''camvid'', ''paris'', ''road'', ''ai'']"

text \<open>The events that a step adds to the trace.\<close>

definition new_events :: "('w, 'o, 'e) state \<Rightarrow> ('w, 'o, 'e) state \<Rightarrow> event list" where
  "new_events st st1 = drop (length (trace st)) (trace st1)"

text \<open>The epoch of an event of the loop, and the place of its step within the epoch.\<close>

fun event_epoch :: "event \<Rightarrow> int option" where
  "event_epoch (TrainStep e) = Some e"
| "event_epoch (ValidateSliding e s) = Some e"
| "event_epoch (ValidateWhole e) = Some e"
| "event_epoch (RecordLog e) = Some e"
| "event_epoch (LrStep e) = Some e"
| "event_epoch (DrawLog e) = Some e"
| "event_epoch (SaveCheckpoint e p) = Some e"
| "event_epoch (EarlyStopCheck e b) = Some e"
| "event_epoch (EarlyStopSave e p) = Some e"
| "event_epoch (EarlyStopValidate e s) = Some e"
| "event_epoch (Print (MsgEarlyStopEpoch e)) = Some e"
| "event_epoch ev = None"

fun step_rank :: "event \<Rightarrow> nat" where
  "step_rank (TrainStep e) = 1"
| "step_rank (ValidateSliding e s) = 2"
| "step_rank (ValidateWhole e) = 2"
| "step_rank (RecordLog e) = 3"
| "step_rank (LrStep e) = 4"
| "step_rank (DrawLog e) = 5"
| "step_rank (SaveCheckpoint e p) = 6"
| "step_rank (EarlyStopCheck e b) = 7"
| "step_rank (EarlyStopSave e p) = 8"
| "step_rank (EarlyStopValidate e s) = 9"
| "step_rank (Print (MsgEarlyStopEpoch e)) = 10"
| "step_rank ev = 0"

text \<open>
  \<open>before x y\<close>: both are events of the loop, and \<open>x\<close> belongs to an earlier epoch than
  \<open>y\<close>, or to the same epoch and an earlier step.
\<close>

definition before :: "event \<Rightarrow> event \<Rightarrow> bool" where
  "before x y =
     (case (event_epoch x, event_epoch y) of
        (Some ex, Some ey) \<Rightarrow> ex < ey \<or> (ex = ey \<and> step_rank x < step_rank y)
      | _ \<Rightarrow> False)"

text \<open>The input size that an event passes to a collaborator, if it passes one.\<close>

fun event_input_size :: "event \<Rightarrow> size_arg option" where
  "event_input_size (BuildDatasetTrain d s b) = Some s"
| "event_input_size (ValidateSliding e s) = Some s"
| "event_input_size (EarlyStopValidate e s) = Some s"
| "event_input_size ev = None"

text \<open>The exception that ended a step, if one did.\<close>

fun raised :: "outcome \<Rightarrow> error option" where
  "raised Next = None"
| "raised Break = None"
| "raised (Raise err) = Some err"

text \<open>The weights that the call of \<open>train\<close> in an epoch starting from \<open>st\<close> leaves.\<close>

definition after_train ::
  "('w, 'o, 'e, 'b) env \<Rightarrow> args \<Rightarrow> 'b list \<Rightarrow> ('w, 'o, 'e) state \<Rightarrow> 'w" where
  "after_train env a train_loader st =
     fst (fst (train env a train_loader (weights st, optimizer st)))"

text \<open>Whether \<open>early_stopping.early_stop\<close> is set after \<open>monitor\<close> has seen \<open>mIOU_val\<close>.\<close>

definition stops :: "('w, 'o, 'e, 'b) env \<Rightarrow> ('w, 'o, 'e) state \<Rightarrow> bool" where
  "stops env st = early_stop env (monitor env (mIOU_val st) (early_stopping st))"

text \<open>The input size that the chain of tests on the dataset name assigns.\<close>

definition dataset_input_size :: "string \<Rightarrow> size_arg" where
  "dataset_input_size d =
     (if d = ''camvid'' then SizePair 360 480
      else if d = ''ai'' then SizePair 256 256
      else SizePair 512 512)"

text \<open>Reading a decimal numeral back, to tell the file names of two epochs apart.\<close>

definition nat_of_str :: "string \<Rightarrow> nat" where
  "nat_of_str cs = foldl (\<lambda>n c. 10 * n + (of_char c - 48)) 0 cs"

subsection \<open>A small concrete instance\<close>

text \<open>
  Weights and batches are integers, a step adds the batch to the weights, the loss of a
  batch is their sum; the early-stopping object counts the calls of \<open>monitor\<close> and stops
  when the count reaches its patience.
\<close>

definition demo_env :: "(int, nat, nat \<times> nat, int) env" where
  "demo_env =
     \<lparr>build_model = (\<lambda>n c. 0),
      build_dataset_train = (\<lambda>d s b t rs rm nw. [1, 2]),
      build_optimizer = (\<lambda>oc l. 0),
      criterion_pspnet = (\<lambda>w b. (1, 2)),
      criterion_output = (\<lambda>w b. of_int (w + b)),
      optimizer_step = (\<lambda>w k b. (w + b, Suc k)),
      param_group_lr = (\<lambda>k. 1 / 1000),
      lr_scheduler_step = (\<lambda>k. k),
      predict_sliding = (\<lambda>w s. \<lparr>val_loss = 1, FWIoU = 1 / 2, mIOU = 1 / 4,
                                 per_class_iu = [1 / 4], pa = 1, cpa = [1], mpa = 1\<rparr>),
      predict_whole = (1, 1 / 2, 1 / 4, [1 / 4]),
      cuda_device_count = 1,
      cuda_is_available = True,
      early_stopping_init = (\<lambda>p. (p, 0)),
      monitor = (\<lambda>m pc. (fst pc, Suc (snd pc))),
      early_stop = (\<lambda>pc. fst pc \<le> snd pc),
      resume_logfile = []\<rparr>"

definition demo_args :: args where
  "demo_args = parse_args_defaults\<lparr>classes := Some 3, gpu_nums := Some 1, savedir := ''ckpt/''\<rparr>"

definition demo_state :: "(int, nat, nat \<times> nat) state" where
  "demo_state =
     \<lparr>weights = 0, optimizer = 0, early_stopping = (50, 0), start_epoch = 1,
      lossTr_list = [], mIOU_val_list = [], lossVal_list = [], mIOU_val = 0,
      files = Map.empty, logger = [], trace = []\<rparr>"

section \<open>Properties\<close>

subsection \<open>The average loss of \<open>train\<close>\<close>

lemma train_batches_snd:
  "snd (train_batches env a bs wo acc) = acc @ per_batch_losses env a bs wo"
  by (induction bs arbitrary: wo acc) simp_all

lemma per_batch_losses_length: "length (per_batch_losses env a bs wo) = length bs"
  by (induction bs arbitrary: wo) simp_all

lemma per_batch_losses_Nil: "per_batch_losses env a bs wo = [] \<longleftrightarrow> bs = []"
  by (cases bs) simp_all

text \<open>
  C9. \<open>train\<close> on a training loader with at least one batch returns the sum of the loss
  values of its batches divided by their number (the division does not raise), together
  with the learning rate read at the start; on an empty loader the final division raises
  \<open>ZeroDivisionError\<close>.
\<close>

theorem train_average_loss:
  "snd (train env a train_loader wo) =
     (if train_loader = [] then Inl ZeroDivisionError
      else Inr (sum_list (per_batch_losses env a train_loader wo) / real (length train_loader),
                param_group_lr env (snd wo)))"
  by (simp add: train_def average_def Let_def train_batches_snd per_batch_losses_length
        per_batch_losses_Nil)

theorem train_average_loss_witness:
  "snd (train demo_env demo_args [1, 2] (0, 0)) = Inr (2, 1 / 1000)
   \<and> snd (train demo_env demo_args [] (0, 0)) = Inl ZeroDivisionError"
  using train_average_loss [of demo_env demo_args "[1, 2]" "(0, 0)"]
        train_average_loss [of demo_env demo_args "[]" "(0, 0)"]
  by (simp add: demo_env_def demo_args_def parse_args_defaults_def batch_loss_def)

subsection \<open>Unsupported datasets\<close>

text \<open>
  C4. A dataset name other than cityscapes, camvid, paris, road and ai makes the program
  raise \<open>NotImplementedError\<close> at once: \<open>main\<close> is not called, no event has happened
  (no model, dataset or optimizer has been built) and no file has changed.
\<close>

theorem unsupported_dataset_raises:
  "dataset a \<notin> set supported_datasets \<Longrightarrow>
   startup env a fs =
     (\<lparr>w_files = fs, w_logger = [], w_trace = []\<rparr>,
      Some (NotImplementedError
              (''This repository now supports datasets '' @ dataset a @ '' is not included'')))"
  by (simp add: startup_def configure_def supported_datasets_def)

theorem unsupported_dataset_raises_witness:
  "startup demo_env (parse_args_defaults\<lparr>dataset := ''voc''\<rparr>) Map.empty =
     (\<lparr>w_files = Map.empty, w_logger = [], w_trace = []\<rparr>,
      Some (NotImplementedError ''This repository now supports datasets voc is not included''))"
  using unsupported_dataset_raises [of "parse_args_defaults\<lparr>dataset := ''voc''\<rparr>" demo_env Map.empty]
  by (simp add: supported_datasets_def parse_args_defaults_def)

subsection \<open>The steps of one epoch\<close>

text \<open>
  What each step of the loop body does to the fields of the state, and what the body as
  a whole does: which exception it raises, which events it adds, which file it writes
  and which line it logs.
\<close>

lemma train_phase_snd:
  "snd (train_phase env a bs st e) = snd (train env a bs (weights st, optimizer st))"
  by (simp add: train_phase_def Let_def split: prod.splits sum.splits)

lemma train_phase_fields:
  "trace (fst (train_phase env a bs st e)) = trace st @ [TrainStep e]"
  "files (fst (train_phase env a bs st e)) = files st"
  "logger (fst (train_phase env a bs st e)) = logger st"
  "weights (fst (train_phase env a bs st e)) = after_train env a bs st"
  "early_stopping (fst (train_phase env a bs st e)) = early_stopping st"
  "mIOU_val (fst (train_phase env a bs st e)) = mIOU_val st"
  "mIOU_val_list (fst (train_phase env a bs st e)) = mIOU_val_list st"
  "lossVal_list (fst (train_phase env a bs st e)) = lossVal_list st"
  by (simp_all add: train_phase_def after_train_def emit_def Let_def split: prod.splits sum.splits)

lemma validation_phase_snd:
  "snd (validation_phase env a st e lr0 lossTr) =
     (if val_epochs a = 0 then Some ZeroDivisionError
      else if validation_due a e \<and> \<not> sliding a then Some (UnboundLocalError ''pa'')
      else None)"
  by (simp add: validation_phase_def Let_def split: prod.splits)

lemma validation_phase_trace:
  "trace (fst (validation_phase env a st e lr0 lossTr)) =
     trace st @
     (if val_epochs a = 0 then []
      else if validation_due a e
      then (if sliding a then [ValidateSliding e (input_size a), RecordLog e] else [ValidateWhole e])
      else [RecordLog e])"
  by (simp add: validation_phase_def emit_def Let_def split: prod.splits)

lemma validation_phase_logger:
  "logger (fst (validation_phase env a st e lr0 lossTr)) =
     (if val_epochs a = 0 then logger st
      else if validation_due a e
      then (if sliding a
            then logger st @
                 [[FEpoch e, FLr lr0, FTrainLoss lossTr,
                   FValLoss (val_loss (predict_sliding env (weights st) (input_size a))),
                   FFWIoU (FWIoU (predict_sliding env (weights st) (input_size a))),
                   FmIOU (mIOU (predict_sliding env (weights st) (input_size a))),
                   FPerClassIoU (per_class_iu (predict_sliding env (weights st) (input_size a)))]]
            else logger st)
      else logger st @ [[FEpoch e, FLr lr0, FTrainLoss lossTr]])"
  by (simp add: validation_phase_def emit_def Let_def record_train_log_def record_trainVal_log_def
        split: prod.splits)

lemma validation_phase_frame:
  "files (fst (validation_phase env a st e lr0 lossTr)) = files st"
  "weights (fst (validation_phase env a st e lr0 lossTr)) = weights st"
  "early_stopping (fst (validation_phase env a st e lr0 lossTr)) = early_stopping st"
  by (simp_all add: validation_phase_def emit_def Let_def split: prod.splits)

lemma validation_phase_lists:
  "val_epochs a \<noteq> 0 \<Longrightarrow> \<not> validation_due a e \<or> sliding a \<Longrightarrow>
   mIOU_val_list (fst (validation_phase env a st e lr0 lossTr)) =
     mIOU_val_list st @
       (if validation_due a e then [mIOU (predict_sliding env (weights st) (input_size a))] else [])"
  "val_epochs a \<noteq> 0 \<Longrightarrow> \<not> validation_due a e \<or> sliding a \<Longrightarrow>
   lossVal_list (fst (validation_phase env a st e lr0 lossTr)) =
     lossVal_list st @
       (if validation_due a e then [val_loss (predict_sliding env (weights st) (input_size a))] else [])"
  "val_epochs a \<noteq> 0 \<Longrightarrow> \<not> validation_due a e \<or> sliding a \<Longrightarrow>
   mIOU_val (fst (validation_phase env a st e lr0 lossTr)) =
       (if validation_due a e then mIOU (predict_sliding env (weights st) (input_size a)) else mIOU_val st)"
  by (auto simp add: validation_phase_def emit_def Let_def split: prod.splits)

lemma lr_phase_fields:
  "trace (lr_phase env st e) = trace st @ [LrStep e, DrawLog e]"
  "files (lr_phase env st e) = files st"
  "logger (lr_phase env st e) = logger st"
  "weights (lr_phase env st e) = weights st"
  "early_stopping (lr_phase env st e) = early_stopping st"
  "mIOU_val (lr_phase env st e) = mIOU_val st"
  "mIOU_val_list (lr_phase env st e) = mIOU_val_list st"
  "lossVal_list (lr_phase env st e) = lossVal_list st"
  by (simp_all add: lr_phase_def emit_def)

lemma save_phase_fields:
  "trace (save_phase a st e) =
     trace st @ (if save_due a e then [SaveCheckpoint e (model_file_name a e)] else [])"
  "files (save_phase a st e) =
     (if save_due a e then (files st)(model_file_name a e \<mapsto> Checkpoint e (weights st))
      else files st)"
  "logger (save_phase a st e) = logger st"
  "weights (save_phase a st e) = weights st"
  "early_stopping (save_phase a st e) = early_stopping st"
  "mIOU_val (save_phase a st e) = mIOU_val st"
  "mIOU_val_list (save_phase a st e) = mIOU_val_list st"
  "lossVal_list (save_phase a st e) = lossVal_list st"
  by (simp_all add: save_phase_def save_due_def torch_save_def emit_def Let_def)

lemma early_stop_phase_snd:
  "snd (early_stop_phase env a st e) = (if stops env st then Break else Next)"
  by (simp add: early_stop_phase_def stops_def Let_def)

lemma early_stop_phase_fields:
  "trace (fst (early_stop_phase env a st e)) =
     trace st @ [EarlyStopCheck e (stops env st)] @
       (if stops env st \<and> model_file_name a e \<notin> dom (files st)
        then [EarlyStopSave e (model_file_name a e), EarlyStopValidate e (input_size a),
              Print (MsgEarlyStopEpoch e)]
        else [])"
  "files (fst (early_stop_phase env a st e)) =
     (if stops env st \<and> model_file_name a e \<notin> dom (files st)
      then (files st)(model_file_name a e \<mapsto> Checkpoint e (weights st))
      else files st)"
  "logger (fst (early_stop_phase env a st e)) = logger st"
  "weights (fst (early_stop_phase env a st e)) = weights st"
  "mIOU_val_list (fst (early_stop_phase env a st e)) = mIOU_val_list st"
  "lossVal_list (fst (early_stop_phase env a st e)) = lossVal_list st"
  by (simp_all add: early_stop_phase_def stops_def torch_save_def emit_def Let_def)


lemma train_snd_Inr:
  "bs \<noteq> [] \<Longrightarrow> \<exists>lossTr. snd (train env a bs wo) = Inr (lossTr, param_group_lr env (snd wo))"
  by (simp add: train_average_loss)

lemma epoch_body_train_raise:
  "bs = [] \<Longrightarrow> epoch_body env a bs st e = (fst (train_phase env a bs st e), Raise ZeroDivisionError)"
  using train_phase_snd [of env a bs st e] train_average_loss [of env a bs "(weights st, optimizer st)"]
  by (cases "train_phase env a bs st e") (simp add: epoch_body_def)

lemma epoch_body_unfold:
  assumes "snd (train env a bs (weights st, optimizer st)) = Inr (lossTr, lr0)"
  shows "epoch_body env a bs st e =
     (case snd (validation_phase env a (fst (train_phase env a bs st e)) e lr0 lossTr) of
        Some err \<Rightarrow> (fst (validation_phase env a (fst (train_phase env a bs st e)) e lr0 lossTr), Raise err)
      | None \<Rightarrow>
          early_stop_phase env a
            (save_phase a (lr_phase env
               (fst (validation_phase env a (fst (train_phase env a bs st e)) e lr0 lossTr)) e) e) e)"
  using train_phase_snd [of env a bs st e] assms
  by (cases "train_phase env a bs st e";
      cases "validation_phase env a (fst (train_phase env a bs st e)) e lr0 lossTr")
     (auto simp add: epoch_body_def split: option.splits)

lemma epoch_body_raised:
  "raised (snd (epoch_body env a bs st e)) =
     (if bs = [] then Some ZeroDivisionError
      else if val_epochs a = 0 then Some ZeroDivisionError
      else if validation_due a e \<and> \<not> sliding a then Some (UnboundLocalError ''pa'')
      else None)"
proof (cases "bs = []")
  case True
  then show ?thesis by (simp add: epoch_body_train_raise)
next
  case False
  then obtain lossTr where t: "snd (train env a bs (weights st, optimizer st)) = Inr (lossTr, param_group_lr env (optimizer st))"
    using train_snd_Inr [of bs env a "(weights st, optimizer st)"] by auto
  show ?thesis using False
    by (simp add: epoch_body_unfold [OF t] validation_phase_snd early_stop_phase_snd)
qed


lemma epoch_body_ok:
  assumes "snd (train env a bs (weights st, optimizer st)) = Inr (lossTr, lr0)"
    and "val_epochs a \<noteq> 0" and "\<not> validation_due a e \<or> sliding a"
  shows "epoch_body env a bs st e =
          early_stop_phase env a
            (save_phase a (lr_phase env
               (fst (validation_phase env a (fst (train_phase env a bs st e)) e lr0 lossTr)) e) e) e"
  using assms(2,3) by (auto simp add: epoch_body_unfold [OF assms(1)] validation_phase_snd)

lemma epoch_body_break:
  assumes "snd (train env a bs (weights st, optimizer st)) = Inr (lossTr, lr0)"
    and "val_epochs a \<noteq> 0" and "\<not> validation_due a e \<or> sliding a"
  shows "snd (epoch_body env a bs st e) = Break \<longleftrightarrow>
          stops env (save_phase a (lr_phase env
               (fst (validation_phase env a (fst (train_phase env a bs st e)) e lr0 lossTr)) e) e)"
    and "snd (epoch_body env a bs st e) = Next \<longleftrightarrow>
          \<not> stops env (save_phase a (lr_phase env
               (fst (validation_phase env a (fst (train_phase env a bs st e)) e lr0 lossTr)) e) e)"
  by (simp_all add: epoch_body_ok [OF assms] early_stop_phase_snd)

lemma epoch_body_trace_fail:
  "bs = [] \<or> val_epochs a = 0 \<Longrightarrow>
     trace (fst (epoch_body env a bs st e)) = trace st @ [TrainStep e]"
proof (cases "bs = []")
  case True
  then show ?thesis by (simp add: epoch_body_train_raise train_phase_fields)
next
  case False
  assume "bs = [] \<or> val_epochs a = 0"
  with False have z: "val_epochs a = 0" by simp
  from False obtain lossTr where t: "snd (train env a bs (weights st, optimizer st)) = Inr (lossTr, param_group_lr env (optimizer st))"
    using train_snd_Inr [of bs env a "(weights st, optimizer st)"] by auto
  show ?thesis using z
    by (simp add: epoch_body_unfold [OF t] validation_phase_snd validation_phase_trace train_phase_fields)
qed

lemma epoch_body_trace_whole:
  assumes "bs \<noteq> []" "val_epochs a \<noteq> 0" "validation_due a e" "\<not> sliding a"
  shows "trace (fst (epoch_body env a bs st e)) = trace st @ [TrainStep e, ValidateWhole e]"
proof -
  from assms(1) obtain lossTr where t: "snd (train env a bs (weights st, optimizer st)) = Inr (lossTr, param_group_lr env (optimizer st))"
    using train_snd_Inr [of bs env a "(weights st, optimizer st)"] by auto
  show ?thesis using assms(2-)
    by (simp add: epoch_body_unfold [OF t] validation_phase_snd validation_phase_trace train_phase_fields)
qed

lemma epoch_body_files:
  assumes "raised (snd (epoch_body env a bs st e)) = None"
  shows "files (fst (epoch_body env a bs st e)) =
     (if save_due a e \<or> (snd (epoch_body env a bs st e) = Break \<and> model_file_name a e \<notin> dom (files st))
      then (files st)(model_file_name a e \<mapsto> Checkpoint e (after_train env a bs st))
      else files st)"
proof -
  from assms have ok: "bs \<noteq> []" "val_epochs a \<noteq> 0" "\<not> validation_due a e \<or> sliding a"
    by (auto simp: epoch_body_raised split: if_splits)
  from ok(1) obtain lossTr where t: "snd (train env a bs (weights st, optimizer st)) = Inr (lossTr, param_group_lr env (optimizer st))"
    using train_snd_Inr [of bs env a "(weights st, optimizer st)"] by auto
  note b = epoch_body_break(1) [OF t ok(2,3)]
  show ?thesis
    unfolding b
    by (simp add: epoch_body_ok [OF t ok(2,3)] early_stop_phase_fields save_phase_fields lr_phase_fields
          validation_phase_frame train_phase_fields)
qed

lemma epoch_body_trace_ok:
  assumes "raised (snd (epoch_body env a bs st e)) = None"
  shows "trace (fst (epoch_body env a bs st e)) =
     trace st @ [TrainStep e]
     @ (if validation_due a e then [ValidateSliding e (input_size a), RecordLog e] else [RecordLog e])
     @ [LrStep e, DrawLog e]
     @ (if save_due a e then [SaveCheckpoint e (model_file_name a e)] else [])
     @ [EarlyStopCheck e (snd (epoch_body env a bs st e) = Break)]
     @ (if snd (epoch_body env a bs st e) = Break \<and> \<not> save_due a e
           \<and> model_file_name a e \<notin> dom (files st)
        then [EarlyStopSave e (model_file_name a e), EarlyStopValidate e (input_size a),
              Print (MsgEarlyStopEpoch e)]
        else [])"
proof -
  from assms have ok: "bs \<noteq> []" "val_epochs a \<noteq> 0" "\<not> validation_due a e \<or> sliding a"
    by (auto simp: epoch_body_raised split: if_splits)
  from ok(1) obtain lossTr where t: "snd (train env a bs (weights st, optimizer st)) = Inr (lossTr, param_group_lr env (optimizer st))"
    using train_snd_Inr [of bs env a "(weights st, optimizer st)"] by auto
  note b = epoch_body_break(1) [OF t ok(2,3)]
  show ?thesis
    unfolding b using ok(2,3)
    by (auto simp add: epoch_body_ok [OF t ok(2,3)] early_stop_phase_fields save_phase_fields lr_phase_fields
          validation_phase_frame validation_phase_trace train_phase_fields)
qed

lemma epoch_body_weights:
  "weights (fst (epoch_body env a bs st e)) = after_train env a bs st"
proof (cases "bs = []")
  case True
  then show ?thesis by (simp add: epoch_body_train_raise train_phase_fields)
next
  case False
  then obtain lossTr where t: "snd (train env a bs (weights st, optimizer st)) = Inr (lossTr, param_group_lr env (optimizer st))"
    using train_snd_Inr [of bs env a "(weights st, optimizer st)"] by auto
  show ?thesis
    by (simp add: epoch_body_unfold [OF t] early_stop_phase_fields save_phase_fields lr_phase_fields
          validation_phase_frame train_phase_fields split: option.splits)
qed

lemma epoch_body_logger:
  assumes "snd (train env a bs (weights st, optimizer st)) = Inr (lossTr, lr0)"
    and "raised (snd (epoch_body env a bs st e)) = None"
  shows "logger (fst (epoch_body env a bs st e)) =
     logger st @
       [if validation_due a e
        then [FEpoch e, FLr lr0, FTrainLoss lossTr,
              FValLoss (val_loss (predict_sliding env (after_train env a bs st) (input_size a))),
              FFWIoU (FWIoU (predict_sliding env (after_train env a bs st) (input_size a))),
              FmIOU (mIOU (predict_sliding env (after_train env a bs st) (input_size a))),
              FPerClassIoU (per_class_iu (predict_sliding env (after_train env a bs st) (input_size a)))]
        else [FEpoch e, FLr lr0, FTrainLoss lossTr]]"
proof -
  from assms(2) have ok: "bs \<noteq> []" "val_epochs a \<noteq> 0" "\<not> validation_due a e \<or> sliding a"
    by (auto simp: epoch_body_raised split: if_splits)
  show ?thesis using ok(2,3)
    by (auto simp add: epoch_body_ok [OF assms(1) ok(2,3)] early_stop_phase_fields save_phase_fields lr_phase_fields
          validation_phase_logger train_phase_fields)
qed

end
